theory Spec2Isabelle
  imports Main
begin

section \<open>Strings as the component formats them\<close>

text \<open>
  Template literals interpolate numbers in decimal. \<open>digits\<close> is the decimal numeral of a
  natural number and \<open>show_int\<close> that of an integer, with the sign JavaScript prints.
  The counts of a batch change are GraphQL integers, so the addition in the accessory title
  is exact and \<open>int\<close> models it.
\<close>

definition digit_char :: "nat \<Rightarrow> char" where
  "digit_char d = ''0123456789'' ! d"

fun digits :: "nat \<Rightarrow> string" where
  "digits n = (if n < 10 then [digit_char n] else digits (n div 10) @ [digit_char (n mod 10)])"

declare digits.simps [simp del]

definition show_int :: "int \<Rightarrow> string" where
  "show_int i = (if i < 0 then CHR ''-'' # digits (nat (- i)) else digits (nat i))"

text \<open>
  \<open>toLowerCase\<close> and \<open>toLocaleLowerCase\<close> on the ASCII letters, which is all the
  state names of the API are made of; every other character is left as it is.
\<close>

definition lower_char :: "char \<Rightarrow> char" where
  "lower_char c =
     (case map_of (zip ''ABCDEFGHIJKLMNOPQRSTUVWXYZ'' ''abcdefghijklmnopqrstuvwxyz'') c of
        Some l \<Rightarrow> l
      | None \<Rightarrow> c)"

definition toLowerCase :: "string \<Rightarrow> string" where
  "toLowerCase s = map lower_char s"

definition toLocaleLowerCase :: "string \<Rightarrow> string" where
  "toLocaleLowerCase s = map lower_char s"

text \<open>
  JavaScript truthiness of the values the component tests: a string is truthy when it is
  not empty, an optional string when it is present and not empty, a number when it is not 0.
\<close>

definition truthy :: "string option \<Rightarrow> bool" where
  "truthy v = (case v of None \<Rightarrow> False | Some s \<Rightarrow> s \<noteq> [])"

text \<open>\<open>a || b\<close> where \<open>a\<close> is an optional string: \<open>a\<close> when it is truthy, else \<open>b\<close>.\<close>

definition or_else :: "string option \<Rightarrow> string \<Rightarrow> string" where
  "or_else a b = (case a of None \<Rightarrow> b | Some s \<Rightarrow> if s \<noteq> [] then s else b)"

section \<open>Data model\<close>

text \<open>
  The records of \<open>../sourcegraph/gql\<close> with the fields the component reads. Field names
  carry a prefix where two records share a name (\<open>id\<close>, \<open>name\<close>, \<open>state\<close>, \<open>url\<close>,
  \<open>updatedAt\<close>). Lifecycle and review states are the strings the API sends: the component
  compares them with string literals and lowercases them.
\<close>

record Sourcegraph =
  src_instance :: string

record ChangesetsStats =
  total :: int
  stats_open :: int
  closed :: int
  merged :: int
  failed :: int

record Creator =
  displayName :: "string option"
  username :: string

record Namespace =
  ns_id :: string
  namespaceName :: string

record BatchChange =
  bc_id :: string
  bc_name :: string
  bc_namespace :: Namespace
  bc_state :: string
  creator :: Creator
  bc_updatedAt :: string
  changesetsStats :: ChangesetsStats
  bc_url :: string

record ExternalURL =
  url :: string

record Changeset =
  cs_id :: string
  cs_state :: string
  reviewState :: "string option"
  externalID :: "string option"
  externalURL :: "ExternalURL option"
  cs_updatedAt :: string
  repository_name :: string

section \<open>Host interface values\<close>

datatype icon_source =
  Circle | Checkmark | Document | XmarkCircle | ExclamationMark | Clock | Hammer
  | ListIcon | MagnifyingGlass | ArrowClockwise

datatype color = Green | Red | Purple | ColorDefault

record image =
  source :: icon_source
  tintColor :: "color option"

datatype shortcut = copyShortcut | refreshShortcut | secondaryActionShortcut

datatype toast_style = Success | Failure

record detail =
  markdown :: string
  navigationTitle :: string

record toast_action =
  action_title :: string
  pushes :: detail

record toast =
  style :: toast_style
  title :: string
  message :: "string option"
  primaryAction :: "toast_action option"

text \<open>
  What an action handler does, in the order it does it. Each effect is awaited before the
  next one starts. The signal handed to \<open>publishChangeset\<close> is either the signal of the
  controller a fetch hook keeps in its \<open>cancelRef\<close>, or the signal of a controller made on
  the spot with \<open>new AbortController()\<close> and kept nowhere.
\<close>

datatype abort_signal = CancelRefSignal nat | UnkeptSignal

datatype effect =
  PublishChangeset abort_signal string string
  | ShowToast toast
  | SetTimeout nat
  | RefreshChangesets
  | RefreshBatchChanges

datatype action =
  Push string icon_source string
  | OpenInBrowser "string option" string "shortcut option"
  | Action string icon_source "effect list" "shortcut option"
  | CopyToClipboard "string option" string "shortcut option"

record list_item =
  item_icon :: "image option"
  item_title :: string
  subtitle :: string
  accessoryTitle :: "string option"
  accessoryIcon :: image
  item_keywords :: "string list"
  actions :: "action list"

text \<open>
  The outcome of \<open>DateTime.fromISO(s).toRelative()\<close>, a call into the date library: it
  throws, or returns \<open>null\<close> (an invalid date has no relative form), or returns the text.
  The library is a parameter of the components below.
\<close>

datatype relative = Throws string | Returns "string option"

text \<open>The \<open>try\<close>/\<open>catch\<close> around the date call: \<open>updated\<close> stays \<open>null\<close> when it throws.\<close>

definition updated_of :: "relative \<Rightarrow> string option" where
  "updated_of r = (case r of Throws e \<Rightarrow> None | Returns u \<Rightarrow> u)"

section \<open>The batch change list\<close>

text \<open>The subtitle of the list section in \<open>ViewBatchChanges\<close>, from the number of items.\<close>

definition section_subtitle :: "BatchChange list \<Rightarrow> string" where
  "section_subtitle batchChanges =
     (let count = length batchChanges
      in (if count > 100 then digits count @ ''+'' else digits count) @ '' batch changes'')"

definition author_of :: "BatchChange \<Rightarrow> string" where
  "author_of batchChange =
     or_else (displayName (creator batchChange)) (username (creator batchChange))"

definition batchChange_icon :: "BatchChange \<Rightarrow> image" where
  "batchChange_icon batchChange =
     (if bc_state batchChange = ''OPEN'' then \<lparr>source = Circle, tintColor = Some Green\<rparr>
      else if bc_state batchChange = ''CLOSED'' then \<lparr>source = Checkmark, tintColor = Some Red\<rparr>
      else if bc_state batchChange = ''DRAFT'' then \<lparr>source = Document, tintColor = None\<rparr>
      else \<lparr>source = Circle, tintColor = None\<rparr>)"

definition batchChange_accessoryTitle :: "ChangesetsStats \<Rightarrow> string option" where
  "batchChange_accessoryTitle st =
     (if total st \<noteq> 0
      then Some (show_int (merged st) @ '' / '' @ show_int (closed st + merged st + stats_open st)
                 @ '' / '' @ show_int (total st))
      else None)"

definition batchChange_subtitle :: "string option \<Rightarrow> string \<Rightarrow> string" where
  "batchChange_subtitle updated author =
     (case updated of
        None \<Rightarrow> author
      | Some u \<Rightarrow> if u \<noteq> [] then ''by '' @ author @ '', updated '' @ u else author)"

definition BatchChange_item :: "(string \<Rightarrow> relative) \<Rightarrow> Sourcegraph \<Rightarrow> BatchChange \<Rightarrow> list_item" where
  "BatchChange_item toRelative src batchChange =
     (let updated = updated_of (toRelative (bc_updatedAt batchChange));
          author = author_of batchChange;
          url = src_instance src @ bc_url batchChange
      in \<lparr>item_icon = Some \<lparr>source = ListIcon, tintColor = Some ColorDefault\<rparr>,
          item_title = namespaceName (bc_namespace batchChange) @ '' / '' @ bc_name batchChange,
          subtitle = batchChange_subtitle updated author,
          accessoryTitle = batchChange_accessoryTitle (changesetsStats batchChange),
          accessoryIcon = batchChange_icon batchChange,
          item_keywords = [bc_state batchChange],
          actions =
            [Push ''View Batch Change'' MagnifyingGlass (bc_id batchChange),
             OpenInBrowser None url (Some secondaryActionShortcut),
             Action ''Refresh Batch Changes'' ArrowClockwise [RefreshBatchChanges]
               (Some refreshShortcut),
             CopyToClipboard (Some ''Copy Batch Change URL'') url (Some copyShortcut),
             OpenInBrowser (Some ''Open Batch Changes in Browser'')
               (src_instance src @ ''/batch-changes'') None]\<rparr>)"

section \<open>The changeset list\<close>

text \<open>\<open>delayedRefreshChangesets\<close>: a timer of 10000 ms, then the list's \<open>load\<close>.\<close>

definition delayedRefreshChangesets :: "effect list" where
  "delayedRefreshChangesets = [SetTimeout 10000, RefreshChangesets]"

text \<open>
  The \<open>switch\<close> on the lifecycle state sets three variables: \<open>subtitle\<close>, \<open>icon\<close> and
  \<open>secondaryAction\<close>. Each is a function here, with the cases in the order of the source
  and the initial value where no case matches.
\<close>

definition changeset_subtitle :: "Changeset \<Rightarrow> string" where
  "changeset_subtitle changeset =
     (if cs_state changeset = ''OPEN''
      then or_else (map_option toLocaleLowerCase (reviewState changeset)) []
      else toLowerCase (cs_state changeset))"

definition changeset_icon :: "Changeset \<Rightarrow> image" where
  "changeset_icon changeset =
     (if cs_state changeset = ''OPEN'' then
        \<lparr>source =
           (if reviewState changeset = Some ''APPROVED'' then Checkmark
            else if reviewState changeset = Some ''CHANGES_REQUESTED'' then XmarkCircle
            else Circle),
         tintColor = Some Green\<rparr>
      else if cs_state changeset = ''MERGED'' then \<lparr>source = Checkmark, tintColor = Some Purple\<rparr>
      else if cs_state changeset = ''CLOSED'' then \<lparr>source = XmarkCircle, tintColor = Some Red\<rparr>
      else if cs_state changeset = ''FAILED'' then
        \<lparr>source = ExclamationMark, tintColor = Some Red\<rparr>
      else if cs_state changeset = ''UNPUBLISHED'' then \<lparr>source = Document, tintColor = None\<rparr>
      else if cs_state changeset = ''PROCESSING'' \<or> cs_state changeset = ''RETRYING'' then
        \<lparr>source = Clock, tintColor = None\<rparr>
      else \<lparr>source = Circle, tintColor = None\<rparr>)"

definition changeset_secondaryAction :: "BatchChange \<Rightarrow> Changeset \<Rightarrow> action option" where
  "changeset_secondaryAction batchChange changeset =
     (if cs_state changeset = ''FAILED'' then
        Some (Action ''Retry Changeset'' Hammer
          ([PublishChangeset UnkeptSignal (bc_id batchChange) (cs_id changeset),
            ShowToast \<lparr>style = Success, title = ''Changeset has been submitted for retry!'',
              message = None, primaryAction = None\<rparr>]
           @ delayedRefreshChangesets) None)
      else if cs_state changeset = ''UNPUBLISHED'' then
        Some (Action ''Publish Changeset'' Hammer
          ([PublishChangeset UnkeptSignal (bc_id batchChange) (cs_id changeset),
            ShowToast \<lparr>style = Success, title = ''Changeset has been submitted for publishing!'',
              message = None, primaryAction = None\<rparr>]
           @ delayedRefreshChangesets) None)
      else None)"

definition changeset_url :: "Sourcegraph \<Rightarrow> BatchChange \<Rightarrow> Changeset \<Rightarrow> string" where
  "changeset_url src batchChange changeset =
     or_else (map_option url (externalURL changeset))
       (src_instance src @ bc_url batchChange @ ''?status='' @ cs_state changeset)"

definition externalID_prefix :: "Changeset \<Rightarrow> string" where
  "externalID_prefix changeset =
     (case externalID changeset of
        None \<Rightarrow> []
      | Some i \<Rightarrow> if i \<noteq> [] then ''#'' @ i @ '' '' else [])"

definition ChangesetItem ::
  "(string \<Rightarrow> relative) \<Rightarrow> Sourcegraph \<Rightarrow> BatchChange \<Rightarrow> Changeset \<Rightarrow> list_item" where
  "ChangesetItem toRelative src batchChange changeset =
     (let updated = updated_of (toRelative (cs_updatedAt changeset));
          url = changeset_url src batchChange changeset
      in \<lparr>item_icon = None,
          item_title = repository_name changeset,
          subtitle = externalID_prefix changeset @ changeset_subtitle changeset,
          accessoryTitle = (if truthy updated then updated else None),
          accessoryIcon = changeset_icon changeset,
          item_keywords = [cs_state changeset, or_else (reviewState changeset) []],
          actions =
            [OpenInBrowser None url None]
            @ (case changeset_secondaryAction batchChange changeset of
                 None \<Rightarrow> []
               | Some a \<Rightarrow> [a])
            @ [Action ''Refresh Changesets'' ArrowClockwise [RefreshChangesets]
                 (Some refreshShortcut),
               CopyToClipboard None url (Some copyShortcut),
               OpenInBrowser (Some ''Open Changesets in Browser'')
                 (src_instance src @ bc_url batchChange) None]\<rparr>)"

text \<open>The actions of a panel that carry a given title, and those that publish.\<close>

fun has_title :: "string \<Rightarrow> action \<Rightarrow> bool" where
  "has_title t (Action a _ _ _) = (a = t)"
| "has_title t (Push a _ _) = (a = t)"
| "has_title t (OpenInBrowser a _ _) = (a = Some t)"
| "has_title t (CopyToClipboard a _ _) = (a = Some t)"

fun is_publish :: "effect \<Rightarrow> bool" where
  "is_publish (PublishChangeset _ _ _) = True"
| "is_publish _ = False"

fun publishes :: "action \<Rightarrow> bool" where
  "publishes (Action _ _ es _) = (filter is_publish es \<noteq> [])"
| "publishes _ = False"

section \<open>The fetch hooks\<close>

text \<open>
  \<open>useBatchChanges\<close> and \<open>useChangesets\<close> are the same hook twice: they differ in the
  type of the items, in the name of the list field (\<open>batchChanges\<close>, \<open>changesets\<close>; here
  \<open>items\<close>), in the query they send and in the noun of the error title. One polymorphic
  hook models both, with the view as a parameter.
\<close>

datatype view = BatchChangesView | ChangesetsView

fun noun :: "view \<Rightarrow> string" where
  "noun BatchChangesView = ''batch changes''"
| "noun ChangesetsView = ''changesets''"

record 'a FetchState =
  searchText :: string
  items :: "'a list"
  isLoading :: bool

text \<open>
  A value thrown by the awaited query, with its string form \<open>String(error)\<close>: the error of
  a request whose signal was aborted, or any other failure. \<open>load\<close> never looks at which.
\<close>

datatype js_error = AbortError string | OtherError string

fun String_of :: "js_error \<Rightarrow> string" where
  "String_of (AbortError s) = s"
| "String_of (OtherError s) = s"

fun is_abort :: "js_error \<Rightarrow> bool" where
  "is_abort (AbortError _) = True"
| "is_abort (OtherError _) = False"

text \<open>
  The state of one mounted hook: the React state, the \<open>cancelRef\<close>, and what the run time
  holds for it. Abort controllers are numbered in the order \<open>load\<close> makes them;
  \<open>aborted\<close> are the controllers whose \<open>abort()\<close> was called, \<open>awaiting\<close> the calls of
  \<open>load\<close> suspended at their \<open>await\<close> (each named by the controller whose signal it
  passed to the query), \<open>shown\<close> the toasts shown so far.
\<close>

record 'a hook =
  state :: "'a FetchState"
  cancelRef :: "nat option"
  controllers :: nat
  aborted :: "nat set"
  awaiting :: "nat set"
  shown :: "toast list"

definition initial_hook :: "'a hook" where
  "initial_hook =
     \<lparr>state = \<lparr>searchText = [], items = [], isLoading = True\<rparr>,
      cancelRef = None, controllers = 0, aborted = {}, awaiting = {}, shown = []\<rparr>"

text \<open>
  \<open>load\<close> up to its \<open>await\<close>: abort the controller in \<open>cancelRef\<close> if there is one,
  store a new one, clear the items and set the loading flag, send the query.
\<close>

definition load_begin :: "'a hook \<Rightarrow> 'a hook" where
  "load_begin h =
     (let c = controllers h
      in h\<lparr>aborted := (case cancelRef h of None \<Rightarrow> aborted h | Some p \<Rightarrow> insert p (aborted h)),
           cancelRef := Some c,
           controllers := Suc c,
           state := (state h)\<lparr>items := [], isLoading := True\<rparr>,
           awaiting := insert c (awaiting h)\<rparr>)"

text \<open>
  \<open>load\<close> after the \<open>await\<close>, when the query returned. The response is \<open>None\<close> when
  the optional chain \<open>resp?. ... ?.nodes\<close> finds nothing, and the list of nodes otherwise.
\<close>

definition load_fulfilled :: "'a list option \<Rightarrow> 'a hook \<Rightarrow> 'a hook" where
  "load_fulfilled resp h =
     h\<lparr>state := (state h)\<lparr>items := (case resp of None \<Rightarrow> [] | Some nodes \<Rightarrow> nodes),
                              isLoading := False\<rparr>\<rparr>"

definition failure_toast :: "view \<Rightarrow> js_error \<Rightarrow> toast" where
  "failure_toast v error =
     \<lparr>style = Failure,
      title = ''Get '' @ noun v @ '' failed'',
      message = Some (String_of error),
      primaryAction = Some
        \<lparr>action_title = ''View details'',
         pushes = \<lparr>markdown = ''**Get '' @ noun v @ '' failed:** '' @ String_of error,
                   navigationTitle = ''Unexpected error''\<rparr>\<rparr>\<rparr>"

text \<open>The \<open>catch\<close> block of \<open>load\<close>, when the query threw.\<close>

definition load_rejected :: "view \<Rightarrow> js_error \<Rightarrow> 'a hook \<Rightarrow> 'a hook" where
  "load_rejected v error h =
     h\<lparr>shown := shown h @ [failure_toast v error],
       state := (state h)\<lparr>isLoading := False\<rparr>\<rparr>"

text \<open>
  What happens to a hook: \<open>load\<close> is called (on mount, by a refresh action), or the query
  of a suspended call settles and that call runs to its end. A query that is not awaited
  cannot settle.
\<close>

datatype 'a outcome = Fulfilled "'a list option" | Rejected js_error

datatype 'a event = Load | Settle nat "'a outcome"

fun step :: "view \<Rightarrow> 'a event \<Rightarrow> 'a hook \<Rightarrow> 'a hook option" where
  "step v Load h = Some (load_begin h)"
| "step v (Settle c out) h =
     (if c \<in> awaiting h then
        (let h' = h\<lparr>awaiting := awaiting h - {c}\<rparr>
         in Some (case out of
                    Fulfilled resp \<Rightarrow> load_fulfilled resp h'
                  | Rejected error \<Rightarrow> load_rejected v error h'))
      else None)"

text \<open>
  Modelled from the spec: the queries \<open>getBatchChanges\<close> and \<open>getChangesets\<close> of
  \<open>../sourcegraph/gql\<close>, which are not part of the sources at hand. The spec has
  cancellation cooperative: the data port checks the signal it was given and aborts the
  request. So a query whose signal was aborted does not return a response, it throws the
  abort error; and a query whose signal was not aborted throws no abort error.
\<close>

fun port_ok :: "'a hook \<Rightarrow> 'a event \<Rightarrow> bool" where
  "port_ok h Load = True"
| "port_ok h (Settle c (Fulfilled resp)) = (c \<notin> aborted h)"
| "port_ok h (Settle c (Rejected error)) = (is_abort error = (c \<in> aborted h))"

text \<open>A history of a hook: the events in order, each one allowed by the data port.\<close>

fun run :: "view \<Rightarrow> 'a event list \<Rightarrow> 'a hook \<Rightarrow> 'a hook option" where
  "run v [] h = Some h"
| "run v (e # es) h =
     (if port_ok h e then (case step v e h of None \<Rightarrow> None | Some h' \<Rightarrow> run v es h')
      else None)"

text \<open>What every reachable state of a hook satisfies.\<close>

definition hook_inv :: "'a hook \<Rightarrow> bool" where
  "hook_inv h =
     ((\<forall>c \<in> awaiting h. c < controllers h) \<and>
      (\<forall>c \<in> aborted h. c < controllers h) \<and>
      (\<forall>c. cancelRef h = Some c \<longrightarrow> c < controllers h \<and> c \<notin> aborted h) \<and>
      (\<forall>c \<in> awaiting h. c \<notin> aborted h \<longrightarrow> cancelRef h = Some c) \<and>
      (\<forall>c. cancelRef h = Some c \<and> c \<in> awaiting h \<longrightarrow> items (state h) = []))"

section \<open>Running an action handler\<close>

text \<open>
  The two lists of a session, the toasts on screen, the milliseconds spent waiting on
  timers, and a log of the effects performed, each with the timer time at which it began.
  \<open>refreshChangesets\<close> is the \<open>load\<close> of the changeset hook and \<open>refreshBatchChanges\<close>
  that of the batch change hook. The call of \<open>publishChangeset\<close> is awaited: when it
  throws, the handler ends there.
\<close>

record world =
  batchChangesHook :: "BatchChange hook"
  changesetsHook :: "Changeset hook"
  toasts :: "toast list"
  waited :: nat
  performed :: "(nat \<times> effect) list"

datatype publish_result = Published | PublishFailed js_error

fun perform :: "publish_result \<Rightarrow> effect list \<Rightarrow> world \<Rightarrow> world" where
  "perform r [] w = w"
| "perform r (PublishChangeset sg b c # es) w =
     (let w' = w\<lparr>performed := performed w @ [(waited w, PublishChangeset sg b c)]\<rparr>
      in case r of Published \<Rightarrow> perform r es w' | PublishFailed error \<Rightarrow> w')"
| "perform r (ShowToast t # es) w =
     perform r es (w\<lparr>performed := performed w @ [(waited w, ShowToast t)],
                      toasts := toasts w @ [t]\<rparr>)"
| "perform r (SetTimeout ms # es) w =
     perform r es (w\<lparr>performed := performed w @ [(waited w, SetTimeout ms)],
                      waited := waited w + ms\<rparr>)"
| "perform r (RefreshChangesets # es) w =
     perform r es (w\<lparr>performed := performed w @ [(waited w, RefreshChangesets)],
                      changesetsHook := load_begin (changesetsHook w)\<rparr>)"
| "perform r (RefreshBatchChanges # es) w =
     perform r es (w\<lparr>performed := performed w @ [(waited w, RefreshBatchChanges)],
                      batchChangesHook := load_begin (batchChangesHook w)\<rparr>)"

fun handler :: "action \<Rightarrow> effect list" where
  "handler (Action _ _ es _) = es"
| "handler _ = []"

text \<open>What triggering the secondary action of a changeset item runs.\<close>

definition secondary_handler :: "BatchChange \<Rightarrow> Changeset \<Rightarrow> effect list" where
  "secondary_handler batchChange changeset =
     (case changeset_secondaryAction batchChange changeset of
        None \<Rightarrow> []
      | Some a \<Rightarrow> handler a)"

section \<open>Example data\<close>

definition example_src :: Sourcegraph where
  "example_src = \<lparr>src_instance = ''https://sourcegraph.example''\<rparr>"

definition example_batchChange :: BatchChange where
  "example_batchChange =
     \<lparr>bc_id = ''QmF0Y2g6MQ=='', bc_name = ''bump-deps'',
      bc_namespace = \<lparr>ns_id = ''T3JnOjE='', namespaceName = ''acme''\<rparr>,
      bc_state = ''OPEN'',
      creator = \<lparr>displayName = None, username = ''alice''\<rparr>,
      bc_updatedAt = [],
      changesetsStats = \<lparr>total = 10, stats_open = 3, closed = 2, merged = 5, failed = 0\<rparr>,
      bc_url = ''/batch-changes/1''\<rparr>"

definition example_changeset :: Changeset where
  "example_changeset =
     \<lparr>cs_id = ''Q2hhbmdlc2V0OjE='', cs_state = ''OPEN'', reviewState = Some ''APPROVED'',
      externalID = Some ''42'', externalURL = None, cs_updatedAt = [],
      repository_name = ''github.com/acme/app''\<rparr>"

text \<open>The date library on a string that is no date: an invalid date, with no relative form.\<close>

definition no_date :: "string \<Rightarrow> relative" where
  "no_date s = Returns None"

text \<open>The date library on a date two days old.\<close>

definition two_days_ago :: "string \<Rightarrow> relative" where
  "two_days_ago s = Returns (Some ''2 days ago'')"

definition example_world :: world where
  "example_world =
     \<lparr>batchChangesHook = load_begin initial_hook, changesetsHook = load_begin initial_hook,
      toasts = [], waited = 0, performed = []\<rparr>"

section \<open>The batch change item\<close>

lemma show_int_5: "show_int 5 = ''5''"
  by (simp add: show_int_def digits.simps digit_char_def)

lemma show_int_10: "show_int 10 = ''10''"
  by (simp add: show_int_def digits.simps digit_char_def)

text \<open>
  C6. The accessory title of a batch change item is
  \<open>"{merged} / {closed + merged + open} / {total}"\<close> when \<open>total > 0\<close>, and is absent when
  \<open>total = 0\<close>.
\<close>

theorem accessory_summary:
  "(0 < total (changesetsStats b) \<longrightarrow>
      accessoryTitle (BatchChange_item f src b) =
        Some (show_int (merged (changesetsStats b)) @ '' / ''
              @ show_int (closed (changesetsStats b) + merged (changesetsStats b)
                          + stats_open (changesetsStats b))
              @ '' / '' @ show_int (total (changesetsStats b)))) \<and>
   (total (changesetsStats b) = 0 \<longrightarrow> accessoryTitle (BatchChange_item f src b) = None)"
  by (simp add: BatchChange_item_def batchChange_accessoryTitle_def Let_def)

text \<open>With total 10, open 3, closed 2 and merged 5 it reads \<open>"5 / 10 / 10"\<close>.\<close>

theorem accessory_summary_witness:
  "0 < total (changesetsStats example_batchChange) \<and>
   accessoryTitle (BatchChange_item no_date example_src example_batchChange)
     = Some ''5 / 10 / 10'' \<and>
   total (changesetsStats (example_batchChange\<lparr>changesetsStats :=
       \<lparr>total = 0, stats_open = 0, closed = 0, merged = 0, failed = 0\<rparr>\<rparr>)) = 0 \<and>
   accessoryTitle (BatchChange_item no_date example_src (example_batchChange\<lparr>changesetsStats :=
       \<lparr>total = 0, stats_open = 0, closed = 0, merged = 0, failed = 0\<rparr>\<rparr>)) = None"
  using accessory_summary [of example_batchChange no_date example_src]
    accessory_summary [of "example_batchChange\<lparr>changesetsStats :=
       \<lparr>total = 0, stats_open = 0, closed = 0, merged = 0, failed = 0\<rparr>\<rparr>" no_date example_src]
  by (simp add: example_batchChange_def show_int_5 show_int_10)

text \<open>
  A batch change whose timestamp does not parse: the subtitle is the author alone, with no
  \<open>by\<close> in front.
\<close>

theorem unparsed_date_subtitle_is_bare_author:
  "updated_of (no_date (bc_updatedAt example_batchChange)) = None \<and>
   author_of example_batchChange = ''alice'' \<and>
   subtitle (BatchChange_item no_date example_src example_batchChange) = ''alice'' \<and>
   subtitle (BatchChange_item no_date example_src example_batchChange) \<noteq> ''by alice''"
  by (simp add: BatchChange_item_def Let_def no_date_def updated_of_def batchChange_subtitle_def
      author_of_def or_else_def example_batchChange_def)

text \<open>
  C7, as the component has it. When the date call throws or yields no relative time, the
  item is still produced and its subtitle is the creator's name alone; when it yields a
  relative time, the subtitle is \<open>"by {creator}, updated {relativeTime}"\<close>.
\<close>

theorem batchChange_subtitle_by_date:
  "(f (bc_updatedAt b) = Throws e \<or> f (bc_updatedAt b) = Returns None
      \<longrightarrow> subtitle (BatchChange_item f src b) = author_of b) \<and>
   (f (bc_updatedAt b) = Returns (Some r) \<and> r \<noteq> []
      \<longrightarrow> subtitle (BatchChange_item f src b) = ''by '' @ author_of b @ '', updated '' @ r)"
  by (auto simp add: BatchChange_item_def Let_def updated_of_def batchChange_subtitle_def)

theorem batchChange_subtitle_by_date_witness:
  "no_date (bc_updatedAt example_batchChange) = Returns None \<and>
   subtitle (BatchChange_item no_date example_src example_batchChange) = ''alice'' \<and>
   two_days_ago (bc_updatedAt example_batchChange) = Returns (Some ''2 days ago'') \<and>
   subtitle (BatchChange_item two_days_ago example_src example_batchChange)
     = ''by alice, updated 2 days ago''"
  using batchChange_subtitle_by_date [where f = no_date and b = example_batchChange
      and src = example_src]
    batchChange_subtitle_by_date [where f = two_days_ago and b = example_batchChange
      and src = example_src and r = "''2 days ago''"]
  by (simp add: no_date_def two_days_ago_def author_of_def or_else_def example_batchChange_def)

text \<open>
  C9. At a full page of 100 batch changes the section subtitle is \<open>"100 batch changes"\<close>:
  the test is \<open>count > 100\<close>, so the \<open>+\<close> appears from 101 on.
\<close>

theorem section_subtitle_at_cap:
  "section_subtitle (replicate 100 b) = ''100 batch changes'' \<and>
   section_subtitle (replicate 101 b) = ''101+ batch changes''"
  by (simp add: section_subtitle_def digits.simps digit_char_def)

section \<open>The changeset item\<close>

text \<open>
  C8. The URL of the open-in-browser and copy actions of a changeset item is the external
  URL when the changeset has one, and otherwise the instance, the batch change's URL and
  \<open>?status={state}\<close>.
\<close>

theorem canonical_url:
  "(externalURL c = Some e \<and> url e \<noteq> [] \<longrightarrow> changeset_url src b c = url e) \<and>
   (externalURL c = None \<longrightarrow>
      changeset_url src b c = src_instance src @ bc_url b @ ''?status='' @ cs_state c) \<and>
   OpenInBrowser None (changeset_url src b c) None \<in> set (actions (ChangesetItem f src b c)) \<and>
   CopyToClipboard None (changeset_url src b c) (Some copyShortcut)
     \<in> set (actions (ChangesetItem f src b c))"
  by (simp add: changeset_url_def or_else_def ChangesetItem_def Let_def)

theorem canonical_url_witness:
  "externalURL (example_changeset\<lparr>cs_state := ''CLOSED''\<rparr>) = None \<and>
   changeset_url example_src example_batchChange (example_changeset\<lparr>cs_state := ''CLOSED''\<rparr>)
     = ''https://sourcegraph.example/batch-changes/1?status=CLOSED'' \<and>
   externalURL (example_changeset\<lparr>externalURL :=
       Some \<lparr>url = ''https://github.com/acme/app/pull/42''\<rparr>\<rparr>)
     = Some \<lparr>url = ''https://github.com/acme/app/pull/42''\<rparr> \<and>
   changeset_url example_src example_batchChange
     (example_changeset\<lparr>externalURL := Some \<lparr>url = ''https://github.com/acme/app/pull/42''\<rparr>\<rparr>)
     = ''https://github.com/acme/app/pull/42''"
  using canonical_url [of "example_changeset\<lparr>cs_state := ''CLOSED''\<rparr>" _ example_src
      example_batchChange]
    canonical_url [of
      "example_changeset\<lparr>externalURL := Some \<lparr>url = ''https://github.com/acme/app/pull/42''\<rparr>\<rparr>"
      "\<lparr>url = ''https://github.com/acme/app/pull/42''\<rparr>" example_src example_batchChange]
  by (simp add: example_changeset_def example_src_def example_batchChange_def)

text \<open>
  C4. A changeset item has exactly one action titled \<open>Retry Changeset\<close> when its state is
  \<open>FAILED\<close> and none otherwise, exactly one action titled \<open>Publish Changeset\<close> when its
  state is \<open>UNPUBLISHED\<close> and none otherwise; in every other state no action of the panel
  calls \<open>publishChangeset\<close>.
\<close>

theorem secondary_actions_by_state:
  "length (filter (has_title ''Retry Changeset'') (actions (ChangesetItem f src b c)))
     = (if cs_state c = ''FAILED'' then 1 else 0) \<and>
   length (filter (has_title ''Publish Changeset'') (actions (ChangesetItem f src b c)))
     = (if cs_state c = ''UNPUBLISHED'' then 1 else 0) \<and>
   length (filter publishes (actions (ChangesetItem f src b c)))
     = (if cs_state c = ''FAILED'' \<or> cs_state c = ''UNPUBLISHED'' then 1 else 0)"
  by (simp add: ChangesetItem_def changeset_secondaryAction_def Let_def
      delayedRefreshChangesets_def)

text \<open>
  An open, approved changeset with the external identifier 42 is shown with the subtitle
  \<open>"#42 approved"\<close>.
\<close>

theorem open_subtitle_has_externalID_prefix:
  "cs_state example_changeset = ''OPEN'' \<and>
   reviewState example_changeset = Some ''APPROVED'' \<and>
   subtitle (ChangesetItem no_date example_src example_batchChange example_changeset)
     = ''#42 approved'' \<and>
   subtitle (ChangesetItem no_date example_src example_batchChange example_changeset)
     \<noteq> ''approved''"
  by (simp add: ChangesetItem_def Let_def example_changeset_def externalID_prefix_def
      changeset_subtitle_def or_else_def toLocaleLowerCase_def lower_char_def)

text \<open>
  C5, as the component has it. For a changeset in state \<open>OPEN\<close> the subtitle is the
  lowercased review state (empty when there is none), with \<open>"#{externalID} "\<close> in front
  when the changeset has an external identifier; the icon is the check mark when the review
  state is \<open>APPROVED\<close>, the crossed circle when it is \<open>CHANGES_REQUESTED\<close> and the circle
  otherwise; the tint is green.
\<close>

theorem open_changeset_projection:
  "cs_state c = ''OPEN'' \<Longrightarrow>
   subtitle (ChangesetItem f src b c) =
     (case externalID c of None \<Rightarrow> [] | Some i \<Rightarrow> if i \<noteq> [] then ''#'' @ i @ '' '' else [])
     @ (case reviewState c of None \<Rightarrow> [] | Some r \<Rightarrow> toLocaleLowerCase r) \<and>
   source (accessoryIcon (ChangesetItem f src b c)) =
     (if reviewState c = Some ''APPROVED'' then Checkmark
      else if reviewState c = Some ''CHANGES_REQUESTED'' then XmarkCircle
      else Circle) \<and>
   tintColor (accessoryIcon (ChangesetItem f src b c)) = Some Green"
  by (auto simp add: ChangesetItem_def Let_def externalID_prefix_def changeset_subtitle_def
      or_else_def changeset_icon_def toLocaleLowerCase_def split: option.splits)

theorem open_changeset_projection_witness:
  "cs_state (example_changeset\<lparr>externalID := None\<rparr>) = ''OPEN'' \<and>
   subtitle (ChangesetItem no_date example_src example_batchChange
     (example_changeset\<lparr>externalID := None\<rparr>)) = ''approved'' \<and>
   source (accessoryIcon (ChangesetItem no_date example_src example_batchChange
     (example_changeset\<lparr>externalID := None\<rparr>))) = Checkmark \<and>
   tintColor (accessoryIcon (ChangesetItem no_date example_src example_batchChange
     (example_changeset\<lparr>externalID := None\<rparr>))) = Some Green"
proof -
  have "cs_state (example_changeset\<lparr>externalID := None\<rparr>) = ''OPEN''"
    by (simp add: example_changeset_def)
  from this open_changeset_projection [OF this, of no_date example_src example_batchChange]
  show ?thesis
    by (simp add: example_changeset_def toLocaleLowerCase_def lower_char_def)
qed

text \<open>
  C3. Triggering the action of a changeset in state \<open>FAILED\<close> or \<open>UNPUBLISHED\<close> calls
  \<open>publishChangeset\<close> with the signal of a controller of its own; when the call returns
  it shows a success toast, whose title says retry for \<open>FAILED\<close> and publishing for
  \<open>UNPUBLISHED\<close>, waits 10000 ms and then calls the \<open>load\<close> of the changeset list once.
  The batch change list is not touched.
\<close>

theorem publish_then_one_refresh:
  assumes "cs_state c = ''FAILED'' \<or> cs_state c = ''UNPUBLISHED''"
  shows "secondary_handler b c =
           [PublishChangeset UnkeptSignal (bc_id b) (cs_id c),
            ShowToast \<lparr>style = Success,
              title = (if cs_state c = ''FAILED'' then ''Changeset has been submitted for retry!''
                       else ''Changeset has been submitted for publishing!''),
              message = None, primaryAction = None\<rparr>,
            SetTimeout 10000,
            RefreshChangesets] \<and>
         count_list (secondary_handler b c) RefreshChangesets = 1 \<and>
         count_list (secondary_handler b c) RefreshBatchChanges = 0 \<and>
         map snd (performed (perform Published (secondary_handler b c) w))
           = map snd (performed w) @ secondary_handler b c \<and>
         map fst (performed (perform Published (secondary_handler b c) w))
           = map fst (performed w) @ [waited w, waited w, waited w, waited w + 10000] \<and>
         changesetsHook (perform Published (secondary_handler b c) w)
           = load_begin (changesetsHook w) \<and>
         batchChangesHook (perform Published (secondary_handler b c) w) = batchChangesHook w"
  using assms
  by (auto simp add: secondary_handler_def changeset_secondaryAction_def
      delayedRefreshChangesets_def)

theorem publish_then_one_refresh_witness:
  "cs_state (example_changeset\<lparr>cs_state := ''FAILED''\<rparr>) = ''FAILED'' \<and>
   secondary_handler example_batchChange (example_changeset\<lparr>cs_state := ''FAILED''\<rparr>) =
     [PublishChangeset UnkeptSignal ''QmF0Y2g6MQ=='' ''Q2hhbmdlc2V0OjE='',
      ShowToast \<lparr>style = Success, title = ''Changeset has been submitted for retry!'',
        message = None, primaryAction = None\<rparr>,
      SetTimeout 10000,
      RefreshChangesets] \<and>
   map fst (performed (perform Published
      (secondary_handler example_batchChange (example_changeset\<lparr>cs_state := ''FAILED''\<rparr>))
      example_world)) = [0, 0, 0, 10000] \<and>
   cs_state (example_changeset\<lparr>cs_state := ''UNPUBLISHED''\<rparr>) = ''UNPUBLISHED'' \<and>
   secondary_handler example_batchChange (example_changeset\<lparr>cs_state := ''UNPUBLISHED''\<rparr>) =
     [PublishChangeset UnkeptSignal ''QmF0Y2g6MQ=='' ''Q2hhbmdlc2V0OjE='',
      ShowToast \<lparr>style = Success, title = ''Changeset has been submitted for publishing!'',
        message = None, primaryAction = None\<rparr>,
      SetTimeout 10000,
      RefreshChangesets]"
  using publish_then_one_refresh [of "example_changeset\<lparr>cs_state := ''FAILED''\<rparr>"
      example_batchChange example_world]
    publish_then_one_refresh [of "example_changeset\<lparr>cs_state := ''UNPUBLISHED''\<rparr>"
      example_batchChange example_world]
  by (simp add: example_changeset_def example_batchChange_def example_world_def)

text \<open>When \<open>publishChangeset\<close> throws, the handler ends: no toast, no timer, no refresh.\<close>

lemma failed_publish_ends_handler:
  assumes "cs_state c = ''FAILED'' \<or> cs_state c = ''UNPUBLISHED''"
  shows "perform (PublishFailed error) (secondary_handler b c) w =
           w\<lparr>performed := performed w
                @ [(waited w, PublishChangeset UnkeptSignal (bc_id b) (cs_id c))]\<rparr>"
  using assms
  by (auto simp add: secondary_handler_def changeset_secondaryAction_def
      delayedRefreshChangesets_def)

section \<open>Histories of a fetch hook\<close>

subsection \<open>One step\<close>

lemma step_settle_Some:
  "step v (Settle c out) h = Some h' \<Longrightarrow>
   c \<in> awaiting h \<and> awaiting h' = awaiting h - {c} \<and> cancelRef h' = cancelRef h \<and>
   aborted h' = aborted h \<and> controllers h' = controllers h"
  by (cases out) (simp_all add: load_fulfilled_def load_rejected_def Let_def split: if_splits, auto)

lemma step_rejected_items:
  "step v (Settle c (Rejected error)) h = Some h' \<Longrightarrow> items (state h') = items (state h)"
  by (auto simp add: load_rejected_def Let_def split: if_splits)

subsection \<open>The invariant of a hook\<close>

lemma hook_invD:
  assumes inv: "hook_inv h"
  shows "\<forall>c \<in> awaiting h. c < controllers h"
    and "\<forall>c \<in> aborted h. c < controllers h"
    and "\<forall>c. cancelRef h = Some c \<longrightarrow> c < controllers h \<and> c \<notin> aborted h"
    and "\<forall>c \<in> awaiting h. c \<notin> aborted h \<longrightarrow> cancelRef h = Some c"
    and "\<forall>c. cancelRef h = Some c \<and> c \<in> awaiting h \<longrightarrow> items (state h) = []"
  using inv unfolding hook_inv_def by blast+

lemma hook_inv_settle:
  assumes inv: "hook_inv h" and ok: "port_ok h (Settle c out)"
    and st: "step v (Settle c out) h = Some h'"
  shows "hook_inv h'"
proof -
  note f = step_settle_Some [OF st]
  note a = hook_invD(1) [OF inv] and b = hook_invD(2) [OF inv] and d = hook_invD(3) [OF inv]
    and e = hook_invD(4) [OF inv] and g = hook_invD(5) [OF inv]
  have a': "\<forall>c \<in> awaiting h'. c < controllers h'" using a f by simp
  have b': "\<forall>c \<in> aborted h'. c < controllers h'" using b f by simp
  have d': "\<forall>c. cancelRef h' = Some c \<longrightarrow> c < controllers h' \<and> c \<notin> aborted h'"
    using d f by simp
  have e': "\<forall>c \<in> awaiting h'. c \<notin> aborted h' \<longrightarrow> cancelRef h' = Some c"
    using e f by simp
  have g': "\<forall>k. cancelRef h' = Some k \<and> k \<in> awaiting h' \<longrightarrow> items (state h') = []"
  proof (cases out)
    case (Fulfilled resp)
    from ok [unfolded Fulfilled] have "c \<notin> aborted h" by simp
    moreover from f have "c \<in> awaiting h" by (rule conjunct1)
    ultimately have "cancelRef h = Some c" using e by blast
    with f show ?thesis by simp
  next
    case (Rejected error)
    from st [unfolded Rejected] have "items (state h') = items (state h)"
      by (rule step_rejected_items)
    with g f show ?thesis by simp
  qed
  from a' b' d' e' g' show ?thesis
    unfolding hook_inv_def by blast
qed

lemma run_append:
  "run v (es @ fs) h = (case run v es h of None \<Rightarrow> None | Some h' \<Rightarrow> run v fs h')"
  by (induction es arbitrary: h) (auto split: option.splits)

lemma run_snoc:
  "run v (es @ [e]) h = Some h' \<Longrightarrow>
   \<exists>k. run v es h = Some k \<and> port_ok k e \<and> step v e k = Some h'"
  by (auto simp add: run_append split: option.splits if_splits)

lemma hook_inv_initial: "hook_inv initial_hook"
  by (simp add: hook_inv_def initial_hook_def)

lemma hook_inv_load: "hook_inv h \<Longrightarrow> hook_inv (load_begin h)"
  unfolding hook_inv_def load_begin_def Let_def
  by (cases "cancelRef h") (auto simp add: less_Suc_eq)

lemma hook_inv_step:
  "hook_inv h \<Longrightarrow> port_ok h e \<Longrightarrow> step v e h = Some h' \<Longrightarrow> hook_inv h'"
  by (cases e) (auto intro: hook_inv_load hook_inv_settle)

lemma hook_inv_run: "hook_inv h \<Longrightarrow> run v es h = Some h' \<Longrightarrow> hook_inv h'"
proof (induction es arbitrary: h)
  case Nil
  then show ?case by simp
next
  case (Cons e es)
  from Cons.prems(2) obtain k where ok: "port_ok h e" and st: "step v e h = Some k"
    and rest: "run v es k = Some h'"
    by (auto split: if_splits option.splits)
  from Cons.prems(1) ok st have "hook_inv k" by (rule hook_inv_step)
  then show ?case using rest by (rule Cons.IH)
qed

lemma reachable_inv: "run v es initial_hook = Some h \<Longrightarrow> hook_inv h"
  using hook_inv_initial by (rule hook_inv_run)

lemma superseded_is_aborted:
  "hook_inv h \<Longrightarrow> c \<in> awaiting h \<Longrightarrow> cancelRef h \<noteq> Some c \<Longrightarrow> c \<in> aborted h"
  unfolding hook_inv_def by blast

lemma current_awaiting_blank:
  "hook_inv h \<Longrightarrow> c \<in> awaiting h \<Longrightarrow> c \<notin> aborted h \<Longrightarrow>
   cancelRef h = Some c \<and> items (state h) = []"
  unfolding hook_inv_def by blast

lemma step_fulfilled_state:
  "step v (Settle c (Fulfilled resp)) h = Some h' \<Longrightarrow>
   items (state h') = (case resp of None \<Rightarrow> [] | Some nodes \<Rightarrow> nodes) \<and> \<not> isLoading (state h')"
  by (auto simp add: load_fulfilled_def Let_def split: if_splits)

lemma step_rejected_state:
  "step v (Settle c (Rejected error)) h = Some h' \<Longrightarrow>
   \<not> isLoading (state h') \<and> shown h' = shown h @ [failure_toast v error]"
  by (auto simp add: load_rejected_def Let_def split: if_splits)


subsection \<open>Superseded requests\<close>

text \<open>
  Two calls of \<open>load\<close> on the batch change hook, then the first request fails with the
  abort error: the loading flag, which the second call had set, is now false, while the
  second request is still awaited.
\<close>

theorem superseded_abort_flips_isLoading:
  "map_option (isLoading \<circ> state)
     (run BatchChangesView [Load, Load] (initial_hook :: BatchChange hook)) = Some True \<and>
   map_option cancelRef
     (run BatchChangesView [Load, Load] (initial_hook :: BatchChange hook)) = Some (Some 1) \<and>
   map_option (isLoading \<circ> state) (run BatchChangesView
      [Load, Load, Settle 0 (Rejected (AbortError ''AbortError: The user aborted a request.''))]
      (initial_hook :: BatchChange hook)) = Some False \<and>
   map_option awaiting (run BatchChangesView
      [Load, Load, Settle 0 (Rejected (AbortError ''AbortError: The user aborted a request.''))]
      (initial_hook :: BatchChange hook)) = Some {1}"
  by code_simp

text \<open>
  C1, as the hook has it. In every history of a hook, a response is only ever applied for
  the call of \<open>load\<close> whose controller is the current one, and then it becomes the items
  and clears the loading flag. A request of an earlier, superseded call can only fail with
  the abort error, and that leaves the items as they were. Its \<open>catch\<close> block runs all the
  same, so the loading flag and the toasts are not covered.
\<close>

theorem superseded_outcome_leaves_items:
  assumes "run v es initial_hook = Some h"
    and "run v (es @ [Settle c out]) initial_hook = Some h'"
  shows "(cancelRef h \<noteq> Some c \<longrightarrow>
            items (state h') = items (state h) \<and> (\<exists>m. out = Rejected (AbortError m))) \<and>
         (\<forall>resp. out = Fulfilled resp \<longrightarrow>
            cancelRef h = Some c \<and>
            items (state h') = (case resp of None \<Rightarrow> [] | Some nodes \<Rightarrow> nodes) \<and>
            \<not> isLoading (state h'))"
proof -
  from assms obtain ok: "port_ok h (Settle c out)" and st: "step v (Settle c out) h = Some h'"
    by (auto dest: run_snoc)
  from assms(1) have inv: "hook_inv h" by (rule reachable_inv)
  from st have aw: "c \<in> awaiting h"
    using step_settle_Some by blast
  show ?thesis
  proof (cases out)
    case (Fulfilled resp)
    from ok [unfolded Fulfilled] have "c \<notin> aborted h" by simp
    with inv aw have "cancelRef h = Some c"
      using current_awaiting_blank by blast
    moreover note step_fulfilled_state [OF st [unfolded Fulfilled]]
    ultimately show ?thesis using Fulfilled by simp
  next
    case (Rejected error)
    have "\<exists>m. error = AbortError m" if "cancelRef h \<noteq> Some c"
    proof -
      from inv aw that have "c \<in> aborted h" by (rule superseded_is_aborted)
      with ok [unfolded Rejected] show ?thesis by (cases error) simp_all
    qed
    moreover note step_rejected_items [OF st [unfolded Rejected]]
    ultimately show ?thesis using Rejected by simp
  qed
qed

theorem superseded_outcome_leaves_items_witness:
  "run BatchChangesView [Load, Load] (initial_hook :: BatchChange hook) =
     Some \<lparr>state = \<lparr>searchText = [], items = [], isLoading = True\<rparr>,
       cancelRef = Some 1, controllers = 2, aborted = {0}, awaiting = {0, 1}, shown = []\<rparr> \<and>
   map_option (items \<circ> state) (run BatchChangesView
     ([Load, Load] @ [Settle 0 (Rejected (AbortError ''AbortError''))])
     (initial_hook :: BatchChange hook)) = Some [] \<and>
   map_option (items \<circ> state) (run BatchChangesView
     ([Load, Load] @ [Settle 1 (Fulfilled (Some [example_batchChange]))])
     initial_hook) = Some [example_batchChange]"
proof -
  let ?h = "\<lparr>state = \<lparr>searchText = [], items = ([] :: BatchChange list), isLoading = True\<rparr>,
       cancelRef = Some 1, controllers = 2, aborted = {0}, awaiting = {0, 1}, shown = []\<rparr>"
  let ?a = "load_rejected BatchChangesView (AbortError ''AbortError'') (?h\<lparr>awaiting := {1}\<rparr>)"
  let ?b = "load_fulfilled (Some [example_batchChange]) (?h\<lparr>awaiting := {0}\<rparr>)"
  have r: "run BatchChangesView [Load, Load] initial_hook = Some ?h"
    by code_simp
  have a: "run BatchChangesView ([Load, Load] @ [Settle 0 (Rejected (AbortError ''AbortError''))])
     initial_hook = Some ?a"
    by code_simp
  have b: "run BatchChangesView ([Load, Load] @ [Settle 1 (Fulfilled (Some [example_batchChange]))])
     initial_hook = Some ?b"
    by code_simp
  from superseded_outcome_leaves_items [OF r a] superseded_outcome_leaves_items [OF r b] r a b
  show ?thesis
    by (simp add: load_fulfilled_def)
qed

subsection \<open>Failures\<close>

text \<open>
  Two calls of \<open>load\<close> on the changeset hook, then the first request fails with the abort
  error: a failure toast is shown and the loading flag is false, while the second request
  is still awaited.
\<close>

theorem cancelled_load_raises_report:
  "map_option shown (run ChangesetsView
      [Load, Load, Settle 0 (Rejected (AbortError ''AbortError: The user aborted a request.''))]
      (initial_hook :: Changeset hook))
     = Some [failure_toast ChangesetsView
               (AbortError ''AbortError: The user aborted a request.'')] \<and>
   map_option (isLoading \<circ> state) (run ChangesetsView
      [Load, Load, Settle 0 (Rejected (AbortError ''AbortError: The user aborted a request.''))]
      (initial_hook :: Changeset hook)) = Some False \<and>
   map_option cancelRef (run ChangesetsView
      [Load, Load, Settle 0 (Rejected (AbortError ''AbortError: The user aborted a request.''))]
      (initial_hook :: Changeset hook)) = Some (Some 1) \<and>
   map_option awaiting (run ChangesetsView
      [Load, Load, Settle 0 (Rejected (AbortError ''AbortError: The user aborted a request.''))]
      (initial_hook :: Changeset hook)) = Some {1}"
  by code_simp

text \<open>
  C2, as the hook has it. Every failure of an awaited request, the abort error included,
  is handled the same way: the loading flag becomes false, the items stay as they are, and
  one failure toast is shown, whose message is the string form of the error and whose
  action \<open>View details\<close> pushes a detail view with that string.
\<close>

theorem every_failure_is_reported:
  assumes "step v (Settle c (Rejected error)) h = Some h'"
  shows "\<not> isLoading (state h') \<and> items (state h') = items (state h) \<and>
         shown h' = shown h @ [failure_toast v error] \<and>
         style (failure_toast v error) = Failure \<and>
         message (failure_toast v error) = Some (String_of error) \<and>
         map_option action_title (primaryAction (failure_toast v error)) = Some ''View details'' \<and>
         map_option (markdown \<circ> pushes) (primaryAction (failure_toast v error))
           = Some (''**Get '' @ noun v @ '' failed:** '' @ String_of error)"
  using step_rejected_items [OF assms] step_rejected_state [OF assms]
  by (simp add: failure_toast_def)

theorem every_failure_is_reported_witness:
  "step BatchChangesView (Settle 0 (Rejected (AbortError ''AbortError'')))
     (load_begin (initial_hook :: BatchChange hook))
     = Some (load_rejected BatchChangesView (AbortError ''AbortError'')
          ((load_begin initial_hook)\<lparr>awaiting := {}\<rparr>)) \<and>
   \<not> isLoading (state (load_rejected BatchChangesView (AbortError ''AbortError'')
          ((load_begin (initial_hook :: BatchChange hook))\<lparr>awaiting := {}\<rparr>))) \<and>
   message (failure_toast BatchChangesView (AbortError ''AbortError'')) = Some ''AbortError''"
proof -
  have s: "step BatchChangesView (Settle 0 (Rejected (AbortError ''AbortError'')))
     (load_begin (initial_hook :: BatchChange hook))
     = Some (load_rejected BatchChangesView (AbortError ''AbortError'')
          ((load_begin initial_hook)\<lparr>awaiting := {}\<rparr>))"
    by code_simp
  from every_failure_is_reported [OF s] s show ?thesis by simp
qed

text \<open>
  C10. When a call of \<open>load\<close> fails with an error that is not the abort error, the items
  are empty and the loading flag is false afterwards, whatever was shown before.
\<close>

theorem failed_load_blanks_items:
  assumes "run v (es @ [Settle c (Rejected (OtherError m))]) initial_hook = Some h'"
  shows "items (state h') = [] \<and> \<not> isLoading (state h')"
proof -
  from assms obtain h where h: "run v es initial_hook = Some h"
    and ok: "port_ok h (Settle c (Rejected (OtherError m)))"
    and st: "step v (Settle c (Rejected (OtherError m))) h = Some h'"
    by (auto dest: run_snoc)
  from h have inv: "hook_inv h" by (rule reachable_inv)
  from st have aw: "c \<in> awaiting h"
    using step_settle_Some by blast
  from ok have "c \<notin> aborted h" by simp
  with inv aw have "items (state h) = []"
    using current_awaiting_blank by blast
  with step_rejected_items [OF st] step_rejected_state [OF st] show ?thesis by simp
qed

text \<open>A list with one batch change is refreshed and the refresh fails: the list is empty.\<close>

theorem failed_load_blanks_items_witness:
  "run BatchChangesView
     ([Load, Settle 0 (Fulfilled (Some [example_batchChange])), Load]
       @ [Settle 1 (Rejected (OtherError ''Error: network timeout''))]) initial_hook
   = Some \<lparr>state = \<lparr>searchText = [], items = [], isLoading = False\<rparr>,
      cancelRef = Some 1, controllers = 2, aborted = {0}, awaiting = {},
      shown = [failure_toast BatchChangesView (OtherError ''Error: network timeout'')]\<rparr> \<and>
   map_option (items \<circ> state) (run BatchChangesView
     [Load, Settle 0 (Fulfilled (Some [example_batchChange]))] initial_hook)
   = Some [example_batchChange]"
proof -
  have r: "run BatchChangesView
     ([Load, Settle 0 (Fulfilled (Some [example_batchChange])), Load]
       @ [Settle 1 (Rejected (OtherError ''Error: network timeout''))]) initial_hook
   = Some \<lparr>state = \<lparr>searchText = [], items = [], isLoading = False\<rparr>,
      cancelRef = Some 1, controllers = 2, aborted = {0}, awaiting = {},
      shown = [failure_toast BatchChangesView (OtherError ''Error: network timeout'')]\<rparr>"
    by code_simp
  have p: "map_option (items \<circ> state) (run BatchChangesView
     [Load, Settle 0 (Fulfilled (Some [example_batchChange]))] initial_hook)
   = Some [example_batchChange]"
    by code_simp
  from failed_load_blanks_items [OF r] r p show ?thesis by simp
qed

end
